theory Spec2Isabelle
  imports Main
begin

section \<open>JavaScript values carried by event payloads\<close>

text \<open>
  Socket.IO hands every handler the JSON value the client sent (or \<open>undefined\<close> when
  the client sent the event without an argument), and every outbound event carries an object
  literal. An object is the list of its own properties in source order, the first binding of a
  key being the one a lookup sees. A number is given by the string JavaScript prints for it
  (\<open>Number.prototype.toString\<close>: \<open>5\<close>, \<open>-3\<close>, \<open>1.5\<close>, \<open>1e+21\<close>; both zeros print
  \<open>0\<close>): the handlers do nothing with a number but test it for truth, print it into a
  template literal and pass it on.
\<close>

datatype jsval =
    JUndefined
  | JNull
  | JBool bool
  | JNum string
  | JStr string
  | JArr "jsval list"
  | JObj "(string \<times> jsval) list"

text \<open>\<open>!v\<close>: the falsy values of JavaScript.\<close>

fun falsy :: "jsval \<Rightarrow> bool" where
  "falsy JUndefined = True"
| "falsy JNull = True"
| "falsy (JBool b) = (b = False)"
| "falsy (JNum p) = (p = ''0'' \<or> p = ''NaN'')"
| "falsy (JStr s) = (s = [])"
| "falsy (JArr xs) = False"
| "falsy (JObj kvs) = False"

definition truthy :: "jsval \<Rightarrow> bool" where
  "truthy v = (\<not> falsy v)"

text \<open>
  Decimal digits of a natural number, as a template literal prints \<open>Date.now()\<close>.
\<close>

fun show_nat :: "nat \<Rightarrow> string" where
  "show_nat n = (if n < 10 then [''0123456789'' ! n]
                 else show_nat (n div 10) @ [''0123456789'' ! (n mod 10)])"

declare show_nat.simps [simp del]

fun join_comma :: "string list \<Rightarrow> string" where
  "join_comma [] = []"
| "join_comma [x] = x"
| "join_comma (x # y # ys) = x @ '','' @ join_comma (y # ys)"

section \<open>Exceptions\<close>

text \<open>
  The exceptions the handlers can raise on a JSON payload are \<open>TypeError\<close>s: of
  destructuring or reading a property of \<open>undefined\<close> or \<open>null\<close>, and of converting to a
  string an object that has no usable \<open>toString\<close>. A \<open>TypeError\<close> carries a message and no
  \<open>code\<close> property. The messages are the ones Node.js (V8) writes.
\<close>

datatype js_error = TypeError string

fun error_message :: "js_error \<Rightarrow> string" where
  "error_message (TypeError m) = m"

text \<open>Evaluation left to right: the first exception ends it.\<close>

fun collect :: "(js_error + 'a) list \<Rightarrow> js_error + 'a list" where
  "collect [] = Inr []"
| "collect (Inl err # rs) = Inl err"
| "collect (Inr x # rs) = (case collect rs of Inl err \<Rightarrow> Inl err | Inr xs \<Rightarrow> Inr (x # xs))"

text \<open>
  The string a template literal \<open>`${v}`\<close> interpolates: \<open>String(v)\<close>. An array prints
  its elements joined by commas, \<open>null\<close> and \<open>undefined\<close> elements as the empty string. An
  object is converted by calling its \<open>toString\<close>: a parsed JSON object inherits
  \<open>Object.prototype.toString\<close>, which gives \<open>[object Object]\<close>, unless it has an own
  property named \<open>toString\<close>; that one is a JSON value, so not callable, the inherited
  \<open>valueOf\<close> (or an own one, not callable either) yields no primitive, and the conversion
  throws.
\<close>

fun js_toString :: "jsval \<Rightarrow> js_error + string" where
  "js_toString JUndefined = Inr ''undefined''"
| "js_toString JNull = Inr ''null''"
| "js_toString (JBool b) = Inr (if b then ''true'' else ''false'')"
| "js_toString (JNum p) = Inr p"
| "js_toString (JStr s) = Inr s"
| "js_toString (JArr xs) =
     (case collect (map (\<lambda>x. if x = JUndefined \<or> x = JNull then Inr [] else js_toString x) xs) of
        Inl err \<Rightarrow> Inl err
      | Inr strs \<Rightarrow> Inr (join_comma strs))"
| "js_toString (JObj kvs) =
     (case map_of kvs ''toString'' of
        Some v \<Rightarrow> Inl (TypeError ''Cannot convert object to primitive value'')
      | None \<Rightarrow> Inr ''[object Object]'')"

text \<open>
  \<open>v.k\<close> for a value that is neither \<open>undefined\<close> nor \<open>null\<close>. The handlers only read
  the properties \<open>roomId\<close>, \<open>content\<close>, \<open>type\<close>, \<open>replyToId\<close>, \<open>name\<close>, \<open>firstName\<close>
  and the like, which no string, number, boolean or array has.
\<close>

fun get_prop :: "jsval \<Rightarrow> string \<Rightarrow> jsval" where
  "get_prop (JObj kvs) k = (case map_of kvs k of Some v \<Rightarrow> v | None \<Rightarrow> JUndefined)"
| "get_prop v k = JUndefined"

text \<open>A destructuring default \<open>{ k = d }\<close> applies when the property is \<open>undefined\<close>.\<close>

definition with_default :: "jsval \<Rightarrow> jsval \<Rightarrow> jsval" where
  "with_default v d = (if v = JUndefined then d else v)"

text \<open>\<open>a || b\<close> on values.\<close>

definition js_or :: "jsval \<Rightarrow> jsval \<Rightarrow> jsval" where
  "js_or a b = (if falsy a then b else a)"

text \<open>\<open>s.slice(-4)\<close>: the last four characters, the whole string when it is shorter.\<close>

definition slice_last4 :: "string \<Rightarrow> string" where
  "slice_last4 s = drop (length s - 4) s"

text \<open>
  \<open>const { k, ... } = data\<close>: throws on \<open>undefined\<close> and \<open>null\<close>, the message naming
  the first property of the pattern.
\<close>

definition destructure :: "string \<Rightarrow> jsval \<Rightarrow> js_error + jsval" where
  "destructure k data =
     (if data = JUndefined then
        Inl (TypeError (''Cannot destructure property '' @ [CHR 0x27] @ k @ [CHR 0x27] @
                        '' of '' @ [CHR 0x27] @ ''data'' @ [CHR 0x27] @ '' as it is undefined.''))
      else if data = JNull then
        Inl (TypeError (''Cannot destructure property '' @ [CHR 0x27] @ k @ [CHR 0x27] @
                        '' of '' @ [CHR 0x27] @ ''data'' @ [CHR 0x27] @ '' as it is null.''))
      else Inr data)"

section \<open>The demo user of a socket (utils/helpers.js)\<close>

record user =
  user_id :: string
  firstName :: jsval
  lastName :: jsval
  email :: string
  avatar :: jsval
  role :: string
  isOnline :: bool
  lastSeen :: nat

text \<open>
  What the clock and the random number generator return while one handler runs:
  \<open>Date.now()\<close>, \<open>new Date()\<close> (as epoch milliseconds), \<open>new Date().toISOString()\<close>
  and \<open>Math.random().toString(36).substr(2, 9)\<close>.
\<close>

record env =
  date_now :: nat
  new_date :: nat
  iso_string :: string
  random36 :: string

definition createDemoUser :: "env \<Rightarrow> string \<Rightarrow> user" where
  "createDemoUser e socketId =
     \<lparr> user_id = socketId,
       firstName = JStr (''User'' @ slice_last4 socketId),
       lastName = JStr ''Demo'',
       email = ''user'' @ slice_last4 socketId @ ''@demo.com'',
       avatar = JNull,
       role = ''user'',
       isOnline = True,
       lastSeen = new_date e \<rparr>"

section \<open>The Socket.IO server the handlers run on\<close>

text \<open>
  The Socket.IO library is a dependency, not part of the repository. The state below is what
  the handlers can observe of it: the connected sockets (named by their \<open>socket.id\<close>), the
  rooms each socket is in (\<open>socket.rooms\<close>), the \<open>user\<close> and \<open>userId\<close> properties the
  helpers attach to a socket, and, per client, the events the server has sent it so far, oldest
  first.
\<close>

type_synonym sid = string
type_synonym event = "string \<times> jsval"

record server =
  connected :: "sid set"
  rooms :: "sid \<Rightarrow> string set"
  user :: "sid \<Rightarrow> user option"
  userId :: "sid \<Rightarrow> string option"
  received :: "sid \<Rightarrow> event list"

definition init_server :: server where
  "init_server = \<lparr> connected = {}, rooms = (\<lambda>c. {}), user = (\<lambda>c. None),
                    userId = (\<lambda>c. None), received = (\<lambda>c. []) \<rparr>"

text \<open>A new connection: the socket is registered and joins the room named by its own id.\<close>

definition connection :: "sid \<Rightarrow> server \<Rightarrow> server" where
  "connection a s =
     s\<lparr> connected := insert a (connected s),
        rooms := (rooms s)(a := {a}),
        user := (user s)(a := None),
        userId := (userId s)(a := None),
        received := (received s)(a := []) \<rparr>"

text \<open>\<open>socket.emit(ev, payload)\<close>: to the socket's own client only.\<close>

definition socket_emit :: "sid \<Rightarrow> event \<Rightarrow> server \<Rightarrow> server" where
  "socket_emit a ev s =
     s\<lparr> received := (\<lambda>c. if c = a \<and> c \<in> connected s then received s c @ [ev]
                          else received s c) \<rparr>"

text \<open>\<open>io.to(room).emit(ev, payload)\<close>: to every connected socket in the room.\<close>

definition io_to_emit :: "string \<Rightarrow> event \<Rightarrow> server \<Rightarrow> server" where
  "io_to_emit r ev s =
     s\<lparr> received := (\<lambda>c. if c \<in> connected s \<and> r \<in> rooms s c then received s c @ [ev]
                          else received s c) \<rparr>"

text \<open>\<open>socket.to(room).emit(ev, payload)\<close>: to the room, the sending socket left out.\<close>

definition socket_to_emit :: "sid \<Rightarrow> string \<Rightarrow> event \<Rightarrow> server \<Rightarrow> server" where
  "socket_to_emit a r ev s =
     s\<lparr> received := (\<lambda>c. if c \<in> connected s \<and> r \<in> rooms s c \<and> c \<noteq> a
                          then received s c @ [ev] else received s c) \<rparr>"

text \<open>\<open>socket.broadcast.emit(ev, payload)\<close>: to every connected socket but the sender.\<close>

definition socket_broadcast_emit :: "sid \<Rightarrow> event \<Rightarrow> server \<Rightarrow> server" where
  "socket_broadcast_emit a ev s =
     s\<lparr> received := (\<lambda>c. if c \<in> connected s \<and> c \<noteq> a then received s c @ [ev]
                          else received s c) \<rparr>"

text \<open>\<open>io.emit(ev, payload)\<close>: to every connected socket.\<close>

definition io_emit :: "event \<Rightarrow> server \<Rightarrow> server" where
  "io_emit ev s =
     s\<lparr> received := (\<lambda>c. if c \<in> connected s then received s c @ [ev] else received s c) \<rparr>"

text \<open>\<open>socket.join(room)\<close> and \<open>socket.leave(room)\<close>.\<close>

definition socket_join :: "sid \<Rightarrow> string \<Rightarrow> server \<Rightarrow> server" where
  "socket_join a r s = s\<lparr> rooms := (rooms s)(a := insert r (rooms s a)) \<rparr>"

definition socket_leave :: "sid \<Rightarrow> string \<Rightarrow> server \<Rightarrow> server" where
  "socket_leave a r s = s\<lparr> rooms := (rooms s)(a := rooms s a - {r}) \<rparr>"

text \<open>
  What the library does when the transport of a socket closes, before it fires the socket's
  \<open>disconnect\<close> event: the socket leaves every room and is no longer a connected socket.
\<close>

definition socket_onclose :: "sid \<Rightarrow> server \<Rightarrow> server" where
  "socket_onclose a s = s\<lparr> connected := connected s - {a}, rooms := (rooms s)(a := {}) \<rparr>"

section \<open>Helpers (utils/helpers.js)\<close>

text \<open>\<open>getUserForSocket\<close>: the user attached to the socket, created on first use.\<close>

definition getUserForSocket :: "env \<Rightarrow> sid \<Rightarrow> server \<Rightarrow> user \<times> server" where
  "getUserForSocket e a s =
     (case user s a of
        None \<Rightarrow>
          (let u = createDemoUser e a
           in (u, s\<lparr> user := (user s)(a := Some u),
                     userId := (userId s)(a := Some (user_id u)) \<rparr>))
      | Some u \<Rightarrow> (u, s))"

text \<open>\<open>getRoomName\<close>: \<open>`room:${roomId}`\<close>, which throws when the conversion does.\<close>

definition getRoomName :: "jsval \<Rightarrow> js_error + string" where
  "getRoomName roomId =
     (case js_toString roomId of
        Inl err \<Rightarrow> Inl err
      | Inr str \<Rightarrow> Inr (''room:'' @ str))"

text \<open>\<open>getRoomMembers\<close>: "For demo purposes, return empty array".\<close>

definition getRoomMembers :: "jsval \<Rightarrow> jsval list" where
  "getRoomMembers roomId = []"

text \<open>
  \<open>handleSocketError(socket, error, event)\<close>: logs the event's name and the error, then
  tells the socket's own client. A \<open>TypeError\<close> has a message and no \<open>code\<close>.
\<close>

definition handleSocketError :: "sid \<Rightarrow> js_error \<Rightarrow> string \<Rightarrow> server \<Rightarrow> server" where
  "handleSocketError a err event s =
     socket_emit a
       (''error'',
        JObj [(''message'', js_or (JStr (error_message err)) (JStr ''An error occurred'')),
              (''code'', js_or JUndefined (JStr ''UNKNOWN_ERROR''))]) s"

section \<open>Event handlers\<close>

text \<open>
  Each handler is registered per socket with \<open>socket.on(name, handler)\<close> and runs when the
  client of a connected socket \<open>a\<close> sends the event with payload \<open>data\<close>. A handler written
  \<open>try { ... } catch (error) { handleSocketError(socket, error, name) }\<close> is given as its
  \<open>try\<close> block, which returns the new state, or the exception together with the state reached
  when it was thrown, followed by the handler proper, which catches. Two statements can throw:
  the destructuring at the top of the block, and a template literal that prints the room id.
\<close>

text \<open>The object literals \<open>{ id, firstName, lastName, avatar }\<close> and
  \<open>{ id, firstName, lastName }\<close> that the handlers build from the user.\<close>

definition user_public :: "user \<Rightarrow> jsval" where
  "user_public u =
     JObj [(''id'', JStr (user_id u)), (''firstName'', firstName u),
           (''lastName'', lastName u), (''avatar'', avatar u)]"

definition user_names :: "user \<Rightarrow> jsval" where
  "user_names u =
     JObj [(''id'', JStr (user_id u)), (''firstName'', firstName u),
           (''lastName'', lastName u)]"

subsection \<open>events/chatEvents.js\<close>

definition join_room_try ::
  "env \<Rightarrow> sid \<Rightarrow> jsval \<Rightarrow> server \<Rightarrow> (js_error \<times> server) + server" where
  "join_room_try e a data s =
     (case destructure ''roomId'' data of
        Inl err \<Rightarrow> Inl (err, s)
      | Inr d \<Rightarrow>
          (let roomId = get_prop d ''roomId'' in
           if falsy roomId then
             Inr (socket_emit a (''error'', JObj [(''message'', JStr ''Room ID is required'')]) s)
           else
             (case getUserForSocket e a s of
                (u, s1) \<Rightarrow>
                  (case getRoomName roomId of
                     Inl err \<Rightarrow> Inl (err, s1)
                   | Inr roomName \<Rightarrow>
                       (let s2 = socket_join a roomName s1;
                            s3 = socket_to_emit a roomName
                                   (''user_joined'',
                                    JObj [(''userId'', JStr (user_id u)),
                                          (''user'', user_public u),
                                          (''timestamp'', JStr (iso_string e))]) s2
                        in Inr (socket_emit a
                                  (''room_joined'',
                                   JObj [(''roomId'', roomId),
                                         (''message'', JStr ''Successfully joined room'')])
                                  s3))))))"

definition join_room :: "env \<Rightarrow> sid \<Rightarrow> jsval \<Rightarrow> server \<Rightarrow> server" where
  "join_room e a data s =
     (case join_room_try e a data s of
        Inl (err, s') \<Rightarrow> handleSocketError a err ''join_room'' s'
      | Inr s' \<Rightarrow> s')"

definition leave_room_try ::
  "env \<Rightarrow> sid \<Rightarrow> jsval \<Rightarrow> server \<Rightarrow> (js_error \<times> server) + server" where
  "leave_room_try e a data s =
     (case destructure ''roomId'' data of
        Inl err \<Rightarrow> Inl (err, s)
      | Inr d \<Rightarrow>
          (let roomId = get_prop d ''roomId'' in
           if falsy roomId then
             Inr (socket_emit a (''error'', JObj [(''message'', JStr ''Room ID is required'')]) s)
           else
             (case getUserForSocket e a s of
                (u, s1) \<Rightarrow>
                  (case getRoomName roomId of
                     Inl err \<Rightarrow> Inl (err, s1)
                   | Inr roomName \<Rightarrow>
                       (let s2 = socket_leave a roomName s1;
                            s3 = socket_to_emit a roomName
                                   (''user_left'',
                                    JObj [(''userId'', JStr (user_id u)),
                                          (''user'', user_public u),
                                          (''timestamp'', JStr (iso_string e))]) s2
                        in Inr (socket_emit a
                                  (''room_left'',
                                   JObj [(''roomId'', roomId),
                                         (''message'', JStr ''Successfully left room'')])
                                  s3))))))"

definition leave_room :: "env \<Rightarrow> sid \<Rightarrow> jsval \<Rightarrow> server \<Rightarrow> server" where
  "leave_room e a data s =
     (case leave_room_try e a data s of
        Inl (err, s') \<Rightarrow> handleSocketError a err ''leave_room'' s'
      | Inr s' \<Rightarrow> s')"

text \<open>
  The message object \<open>send_message\<close> builds. Its last property holds \<open>`Room ${roomId}`\<close>,
  which throws when the room id cannot be printed.
\<close>

definition message_object ::
  "env \<Rightarrow> user \<Rightarrow> jsval \<Rightarrow> jsval \<Rightarrow> jsval \<Rightarrow> jsval \<Rightarrow> js_error + jsval" where
  "message_object e u roomId content type replyToId =
     (case js_toString roomId of
        Inl err \<Rightarrow> Inl err
      | Inr str \<Rightarrow>
          Inr (JObj [(''id'', JStr (''msg_'' @ show_nat (date_now e) @ ''_'' @ random36 e)),
                     (''content'', content),
                     (''type'', type),
                     (''senderId'', JStr (user_id u)),
                     (''roomId'', roomId),
                     (''replyToId'', replyToId),
                     (''createdAt'', JStr (iso_string e)),
                     (''sender'', user_public u),
                     (''room'', JObj [(''id'', roomId), (''name'', JStr (''Room '' @ str))])]))"

definition send_message_try ::
  "env \<Rightarrow> sid \<Rightarrow> jsval \<Rightarrow> server \<Rightarrow> (js_error \<times> server) + server" where
  "send_message_try e a data s =
     (case destructure ''roomId'' data of
        Inl err \<Rightarrow> Inl (err, s)
      | Inr d \<Rightarrow>
          (let roomId = get_prop d ''roomId'';
               content = get_prop d ''content'';
               type = with_default (get_prop d ''type'') (JStr ''text'');
               replyToId = with_default (get_prop d ''replyToId'') JNull
           in
           if falsy roomId \<or> falsy content then
             Inr (socket_emit a
                    (''error'', JObj [(''message'', JStr ''Room ID and content are required'')]) s)
           else
             (case getUserForSocket e a s of
                (u, s1) \<Rightarrow>
                  (case message_object e u roomId content type replyToId of
                     Inl err \<Rightarrow> Inl (err, s1)
                   | Inr message \<Rightarrow>
                       (case getRoomName roomId of
                          Inl err \<Rightarrow> Inl (err, s1)
                        | Inr roomName \<Rightarrow>
                            (let s2 = io_to_emit roomName
                                        (''message_sent'', JObj [(''message'', message)]) s1
                             in Inr (io_to_emit roomName (''new_message'', message) s2)))))))"

definition send_message :: "env \<Rightarrow> sid \<Rightarrow> jsval \<Rightarrow> server \<Rightarrow> server" where
  "send_message e a data s =
     (case send_message_try e a data s of
        Inl (err, s') \<Rightarrow> handleSocketError a err ''send_message'' s'
      | Inr s' \<Rightarrow> s')"

text \<open>
  \<open>typing_start\<close> and \<open>typing_stop\<close> are plain functions with no \<open>try\<close>: an exception
  leaves the handler.
\<close>

definition typing_start :: "env \<Rightarrow> sid \<Rightarrow> jsval \<Rightarrow> server \<Rightarrow> js_error + server" where
  "typing_start e a data s =
     (case destructure ''roomId'' data of
        Inl err \<Rightarrow> Inl err
      | Inr d \<Rightarrow>
          (let roomId = get_prop d ''roomId'' in
           if truthy roomId then
             (case getUserForSocket e a s of
                (u, s1) \<Rightarrow>
                  (case getRoomName roomId of
                     Inl err \<Rightarrow> Inl err
                   | Inr roomName \<Rightarrow>
                       Inr (socket_to_emit a roomName
                              (''user_typing'',
                               JObj [(''userId'', JStr (user_id u)),
                                     (''user'', user_names u),
                                     (''timestamp'', JStr (iso_string e))]) s1)))
           else Inr s))"

definition typing_stop :: "env \<Rightarrow> sid \<Rightarrow> jsval \<Rightarrow> server \<Rightarrow> js_error + server" where
  "typing_stop e a data s =
     (case destructure ''roomId'' data of
        Inl err \<Rightarrow> Inl err
      | Inr d \<Rightarrow>
          (let roomId = get_prop d ''roomId'' in
           if truthy roomId then
             (case getUserForSocket e a s of
                (u, s1) \<Rightarrow>
                  (case getRoomName roomId of
                     Inl err \<Rightarrow> Inl err
                   | Inr roomName \<Rightarrow>
                       Inr (socket_to_emit a roomName
                              (''user_stopped_typing'',
                               JObj [(''userId'', JStr (user_id u)),
                                     (''timestamp'', JStr (iso_string e))]) s1)))
           else Inr s))"

subsection \<open>events/roomEvents.js\<close>

text \<open>The id \<open>create_room\<close> gives the new room.\<close>

definition new_room_id :: "env \<Rightarrow> string" where
  "new_room_id e = ''room_'' @ show_nat (date_now e) @ ''_'' @ random36 e"

definition create_room_try ::
  "env \<Rightarrow> sid \<Rightarrow> jsval \<Rightarrow> server \<Rightarrow> (js_error \<times> server) + server" where
  "create_room_try e a data s =
     (case destructure ''name'' data of
        Inl err \<Rightarrow> Inl (err, s)
      | Inr d \<Rightarrow>
          (let name = get_prop d ''name'';
               description = get_prop d ''description'';
               type = with_default (get_prop d ''type'') (JStr ''public'');
               maxMembers = with_default (get_prop d ''maxMembers'') (JNum ''100'')
           in
           if falsy name then
             Inr (socket_emit a (''error'', JObj [(''message'', JStr ''Room name is required'')]) s)
           else
             (case getUserForSocket e a s of
                (u, s1) \<Rightarrow>
                  (let room = JObj [(''id'', JStr (new_room_id e)),
                                    (''name'', name),
                                    (''description'', description),
                                    (''type'', type),
                                    (''createdById'', JStr (user_id u)),
                                    (''maxMembers'', maxMembers),
                                    (''createdAt'', JStr (iso_string e))]
                   in
                   case getRoomName (get_prop room ''id'') of
                     Inl err \<Rightarrow> Inl (err, s1)
                   | Inr roomName \<Rightarrow>
                       (let s2 = socket_join a roomName s1;
                            s3 = io_emit
                                   (''room_created'',
                                    JObj [(''room'',
                                           JObj [(''id'', get_prop room ''id''),
                                                 (''name'', get_prop room ''name''),
                                                 (''description'', get_prop room ''description''),
                                                 (''type'', get_prop room ''type''),
                                                 (''createdBy'', user_names u),
                                                 (''memberCount'', JNum ''1''),
                                                 (''createdAt'', get_prop room ''createdAt'')])])
                                   s2
                        in Inr (socket_emit a
                                  (''room_created_success'',
                                   JObj [(''room'', room),
                                         (''message'', JStr ''Room created successfully'')])
                                  s3))))))"

definition create_room :: "env \<Rightarrow> sid \<Rightarrow> jsval \<Rightarrow> server \<Rightarrow> server" where
  "create_room e a data s =
     (case create_room_try e a data s of
        Inl (err, s') \<Rightarrow> handleSocketError a err ''create_room'' s'
      | Inr s' \<Rightarrow> s')"

text \<open>\<open>join_room_request\<close> and \<open>leave_room_request\<close>: the room handlers' own join and leave.\<close>

definition join_room_request_try ::
  "env \<Rightarrow> sid \<Rightarrow> jsval \<Rightarrow> server \<Rightarrow> (js_error \<times> server) + server" where
  "join_room_request_try e a data s =
     (case destructure ''roomId'' data of
        Inl err \<Rightarrow> Inl (err, s)
      | Inr d \<Rightarrow>
          (let roomId = get_prop d ''roomId'' in
           if falsy roomId then
             Inr (socket_emit a (''error'', JObj [(''message'', JStr ''Room ID is required'')]) s)
           else
             (case getUserForSocket e a s of
                (u, s1) \<Rightarrow>
                  (case getRoomName roomId of
                     Inl err \<Rightarrow> Inl (err, s1)
                   | Inr roomName \<Rightarrow>
                       (let s2 = socket_join a roomName s1;
                            s3 = socket_to_emit a roomName
                                   (''user_joined_room'',
                                    JObj [(''userId'', JStr (user_id u)),
                                          (''user'', user_public u),
                                          (''roomId'', roomId),
                                          (''timestamp'', JStr (iso_string e))]) s2
                        in Inr (socket_emit a
                                  (''room_joined_success'',
                                   JObj [(''roomId'', roomId),
                                         (''message'', JStr ''Successfully joined room'')])
                                  s3))))))"

definition join_room_request :: "env \<Rightarrow> sid \<Rightarrow> jsval \<Rightarrow> server \<Rightarrow> server" where
  "join_room_request e a data s =
     (case join_room_request_try e a data s of
        Inl (err, s') \<Rightarrow> handleSocketError a err ''join_room_request'' s'
      | Inr s' \<Rightarrow> s')"

definition leave_room_request_try ::
  "env \<Rightarrow> sid \<Rightarrow> jsval \<Rightarrow> server \<Rightarrow> (js_error \<times> server) + server" where
  "leave_room_request_try e a data s =
     (case destructure ''roomId'' data of
        Inl err \<Rightarrow> Inl (err, s)
      | Inr d \<Rightarrow>
          (let roomId = get_prop d ''roomId'' in
           if falsy roomId then
             Inr (socket_emit a (''error'', JObj [(''message'', JStr ''Room ID is required'')]) s)
           else
             (case getUserForSocket e a s of
                (u, s1) \<Rightarrow>
                  (case getRoomName roomId of
                     Inl err \<Rightarrow> Inl (err, s1)
                   | Inr roomName \<Rightarrow>
                       (let s2 = socket_leave a roomName s1;
                            s3 = socket_to_emit a roomName
                                   (''user_left_room'',
                                    JObj [(''userId'', JStr (user_id u)),
                                          (''user'', user_names u),
                                          (''roomId'', roomId),
                                          (''timestamp'', JStr (iso_string e))]) s2
                        in Inr (socket_emit a
                                  (''room_left_success'',
                                   JObj [(''roomId'', roomId),
                                         (''message'', JStr ''Successfully left room'')])
                                  s3))))))"

definition leave_room_request :: "env \<Rightarrow> sid \<Rightarrow> jsval \<Rightarrow> server \<Rightarrow> server" where
  "leave_room_request e a data s =
     (case leave_room_request_try e a data s of
        Inl (err, s') \<Rightarrow> handleSocketError a err ''leave_room_request'' s'
      | Inr s' \<Rightarrow> s')"

text \<open>\<open>get_room_members\<close>: "For demo purposes, return empty members list".\<close>

definition get_room_members_try ::
  "sid \<Rightarrow> jsval \<Rightarrow> server \<Rightarrow> (js_error \<times> server) + server" where
  "get_room_members_try a data s =
     (case destructure ''roomId'' data of
        Inl err \<Rightarrow> Inl (err, s)
      | Inr d \<Rightarrow>
          (let roomId = get_prop d ''roomId'' in
           if falsy roomId then
             Inr (socket_emit a (''error'', JObj [(''message'', JStr ''Room ID is required'')]) s)
           else
             Inr (socket_emit a
                    (''room_members'',
                     JObj [(''roomId'', roomId), (''members'', JArr []), (''count'', JNum ''0'')])
                    s)))"

definition get_room_members :: "sid \<Rightarrow> jsval \<Rightarrow> server \<Rightarrow> server" where
  "get_room_members a data s =
     (case get_room_members_try a data s of
        Inl (err, s') \<Rightarrow> handleSocketError a err ''get_room_members'' s'
      | Inr s' \<Rightarrow> s')"

subsection \<open>events/userEvents.js\<close>

text \<open>
  \<open>disconnect\<close>: the handler takes no payload and nothing in its \<open>try\<close> block can throw; its
  \<open>catch\<close> clause would only log.
\<close>

definition disconnect :: "env \<Rightarrow> sid \<Rightarrow> server \<Rightarrow> server" where
  "disconnect e a s =
     (case getUserForSocket e a s of
        (u, s1) \<Rightarrow>
          socket_broadcast_emit a
            (''user_offline'',
             JObj [(''userId'', JStr (user_id u)), (''timestamp'', JStr (iso_string e))]) s1)"

text \<open>
  A transport-level disconnect: the library's own cleanup, then the handler. The library fires
  \<open>disconnect\<close> once per socket: a close signalled for a socket that is no longer connected
  is ignored.
\<close>

definition on_transport_close :: "env \<Rightarrow> sid \<Rightarrow> server \<Rightarrow> server" where
  "on_transport_close e a s =
     (if a \<in> connected s then disconnect e a (socket_onclose a s) else s)"

text \<open>\<open>update_profile\<close>: the three assignments guarded by \<open>if (field)\<close>.\<close>

definition apply_profile :: "jsval \<Rightarrow> jsval \<Rightarrow> jsval \<Rightarrow> user \<Rightarrow> user" where
  "apply_profile fn ln av u =
     (let u1 = (if truthy fn then u\<lparr> firstName := fn \<rparr> else u);
          u2 = (if truthy ln then u1\<lparr> lastName := ln \<rparr> else u1)
      in if truthy av then u2\<lparr> avatar := av \<rparr> else u2)"

definition update_profile_try ::
  "env \<Rightarrow> sid \<Rightarrow> jsval \<Rightarrow> server \<Rightarrow> (js_error \<times> server) + server" where
  "update_profile_try e a data s =
     (case destructure ''firstName'' data of
        Inl err \<Rightarrow> Inl (err, s)
      | Inr d \<Rightarrow>
          (case getUserForSocket e a s of
             (u0, s1) \<Rightarrow>
               (let u = apply_profile (get_prop d ''firstName'') (get_prop d ''lastName'')
                          (get_prop d ''avatar'') u0;
                    s2 = s1\<lparr> user := (user s1)(a := Some u) \<rparr>;
                    s3 = socket_broadcast_emit a
                           (''user_profile_updated'',
                            JObj [(''userId'', JStr (user_id u)),
                                  (''user'', user_public u),
                                  (''timestamp'', JStr (iso_string e))]) s2
                in Inr (socket_emit a
                          (''profile_updated'',
                           JObj [(''user'', user_public u),
                                 (''message'', JStr ''Profile updated successfully'')]) s3))))"

definition update_profile :: "env \<Rightarrow> sid \<Rightarrow> jsval \<Rightarrow> server \<Rightarrow> server" where
  "update_profile e a data s =
     (case update_profile_try e a data s of
        Inl (err, s') \<Rightarrow> handleSocketError a err ''update_profile'' s'
      | Inr s' \<Rightarrow> s')"

subsection \<open>index.js\<close>

text \<open>
  After the three groups of handlers, \<open>index.js\<close> registers logging listeners of its own on
  \<open>join_room\<close> and \<open>send_message\<close>. They run after the handler of the same event, touch
  no state, and read \<open>data.roomId\<close> (and \<open>data.content\<close>) outside any \<open>try\<close>: on a
  missing payload the property read throws.
\<close>

definition read_prop :: "string \<Rightarrow> jsval \<Rightarrow> js_error + jsval" where
  "read_prop k data =
     (if data = JUndefined \<or> data = JNull then
        Inl (TypeError (''Cannot read properties of '' @
                        (if data = JUndefined then ''undefined'' else ''null'') @
                        '' (reading '' @ [CHR 0x27] @ k @ [CHR 0x27] @ '')''))
      else Inr (get_prop data k))"

definition on_join_room :: "env \<Rightarrow> sid \<Rightarrow> jsval \<Rightarrow> server \<Rightarrow> js_error + server" where
  "on_join_room e a data s =
     (let s' = join_room e a data s in
      case read_prop ''roomId'' data of
        Inl err \<Rightarrow> Inl err
      | Inr roomId \<Rightarrow> Inr s')"

definition on_send_message :: "env \<Rightarrow> sid \<Rightarrow> jsval \<Rightarrow> server \<Rightarrow> js_error + server" where
  "on_send_message e a data s =
     (let s' = send_message e a data s in
      case read_prop ''roomId'' data of
        Inl err \<Rightarrow> Inl err
      | Inr roomId \<Rightarrow>
          (case read_prop ''content'' data of
             Inl err \<Rightarrow> Inl err
           | Inr content \<Rightarrow> Inr s'))"

subsection \<open>Runs of several events\<close>

text \<open>
  Events are handled one at a time. An exception that leaves a handler is not caught by
  anything in the server (\<open>index.js\<close> installs no handler for uncaught exceptions), so the
  run ends with it.
\<close>

definition and_then ::
  "js_error + server \<Rightarrow> (server \<Rightarrow> js_error + server) \<Rightarrow> js_error + server" where
  "and_then r f = (case r of Inl err \<Rightarrow> Inl err | Inr s \<Rightarrow> f s)"

text \<open>
  What can happen to the server: a client connects, a connected client sends one of the events
  above, or a socket's transport closes. The library hands an event to the handlers only while
  the socket is connected.
\<close>

datatype action =
    Connection sid
  | Join_room env sid jsval
  | Leave_room env sid jsval
  | Send_message env sid jsval
  | Typing_start env sid jsval
  | Typing_stop env sid jsval
  | Create_room env sid jsval
  | Join_room_request env sid jsval
  | Leave_room_request env sid jsval
  | Get_room_members sid jsval
  | Update_profile env sid jsval
  | Transport_close env sid

fun handle :: "action \<Rightarrow> server \<Rightarrow> js_error + server" where
  "handle (Connection a) s = Inr (connection a s)"
| "handle (Join_room e a data) s = on_join_room e a data s"
| "handle (Leave_room e a data) s = Inr (leave_room e a data s)"
| "handle (Send_message e a data) s = on_send_message e a data s"
| "handle (Typing_start e a data) s = typing_start e a data s"
| "handle (Typing_stop e a data) s = typing_stop e a data s"
| "handle (Create_room e a data) s = Inr (create_room e a data s)"
| "handle (Join_room_request e a data) s = Inr (join_room_request e a data s)"
| "handle (Leave_room_request e a data) s = Inr (leave_room_request e a data s)"
| "handle (Get_room_members a data) s = Inr (get_room_members a data s)"
| "handle (Update_profile e a data) s = Inr (update_profile e a data s)"
| "handle (Transport_close e a) s = Inr (on_transport_close e a s)"

fun actor :: "action \<Rightarrow> sid" where
  "actor (Connection a) = a"
| "actor (Join_room e a data) = a"
| "actor (Leave_room e a data) = a"
| "actor (Send_message e a data) = a"
| "actor (Typing_start e a data) = a"
| "actor (Typing_stop e a data) = a"
| "actor (Create_room e a data) = a"
| "actor (Join_room_request e a data) = a"
| "actor (Leave_room_request e a data) = a"
| "actor (Get_room_members a data) = a"
| "actor (Update_profile e a data) = a"
| "actor (Transport_close e a) = a"

fun is_connection :: "action \<Rightarrow> bool" where
  "is_connection (Connection a) = True"
| "is_connection ev = False"

definition step :: "action \<Rightarrow> server \<Rightarrow> js_error + server" where
  "step ev s = (if is_connection ev \<or> actor ev \<in> connected s then handle ev s else Inr s)"

fun run :: "action list \<Rightarrow> server \<Rightarrow> js_error + server" where
  "run [] s = Inr s"
| "run (ev # evs) s = and_then (step ev s) (run evs)"

text \<open>
  The rooms a socket \<open>c\<close> asks to be put in by an event: the room named by a truthy
  \<open>roomId\<close> of its \<open>join_room\<close> or \<open>join_room_request\<close>, and the room of the id its
  \<open>create_room\<close> issues; through a history, all of them.
\<close>

fun asks :: "action \<Rightarrow> sid \<Rightarrow> string set" where
  "asks (Join_room e a data) c =
     (if a = c \<and> truthy (get_prop data ''roomId'') then
        (case getRoomName (get_prop data ''roomId'') of Inl err \<Rightarrow> {} | Inr rn \<Rightarrow> {rn})
      else {})"
| "asks (Join_room_request e a data) c =
     (if a = c \<and> truthy (get_prop data ''roomId'') then
        (case getRoomName (get_prop data ''roomId'') of Inl err \<Rightarrow> {} | Inr rn \<Rightarrow> {rn})
      else {})"
| "asks (Create_room e a data) c =
     (if a = c \<and> truthy (get_prop data ''name'') then {''room:'' @ new_room_id e} else {})"
| "asks ev c = {}"

fun joined :: "action list \<Rightarrow> sid \<Rightarrow> string set" where
  "joined [] c = {}"
| "joined (ev # evs) c = asks ev c \<union> joined evs c"

text \<open>
  The sockets in a room, as \<open>io.sockets.adapter.rooms.get(room)\<close> gives them (\<open>index.js\<close>
  counts them for \<open>/stats\<close>).
\<close>

definition adapter_room :: "server \<Rightarrow> string \<Rightarrow> sid set" where
  "adapter_room s r = {c \<in> connected s. r \<in> rooms s c}"

section \<open>Basic facts about the helpers\<close>

lemma getUserForSocket_connected [simp]:
  "connected (snd (getUserForSocket e a s)) = connected s"
  by (simp add: getUserForSocket_def Let_def split: option.splits)

lemma getUserForSocket_rooms [simp]:
  "rooms (snd (getUserForSocket e a s)) = rooms s"
  by (simp add: getUserForSocket_def Let_def split: option.splits)

lemma getUserForSocket_received [simp]:
  "received (snd (getUserForSocket e a s)) = received s"
  by (simp add: getUserForSocket_def Let_def split: option.splits)

lemma getUserForSocket_user [simp]:
  "user (snd (getUserForSocket e a s)) = (user s)(a := Some (fst (getUserForSocket e a s)))"
  by (auto simp add: getUserForSocket_def Let_def split: option.splits)

lemma getUserForSocket_known:
  "user s a = Some u \<Longrightarrow> getUserForSocket e a s = (u, s)"
  by (simp add: getUserForSocket_def)

lemma destructure_obj [simp]: "destructure k (JObj kvs) = Inr (JObj kvs)"
  by (simp add: destructure_def)

lemma socket_emit_simps [simp]:
  "connected (socket_emit a ev s) = connected s"
  "rooms (socket_emit a ev s) = rooms s"
  "user (socket_emit a ev s) = user s"
  "userId (socket_emit a ev s) = userId s"
  "received (socket_emit a ev s) c =
     (if c = a \<and> c \<in> connected s then received s c @ [ev] else received s c)"
  by (simp_all add: socket_emit_def)

lemma io_to_emit_simps [simp]:
  "connected (io_to_emit r ev s) = connected s"
  "rooms (io_to_emit r ev s) = rooms s"
  "user (io_to_emit r ev s) = user s"
  "userId (io_to_emit r ev s) = userId s"
  "received (io_to_emit r ev s) c =
     (if c \<in> connected s \<and> r \<in> rooms s c then received s c @ [ev] else received s c)"
  by (simp_all add: io_to_emit_def)

lemma socket_to_emit_simps [simp]:
  "connected (socket_to_emit a r ev s) = connected s"
  "rooms (socket_to_emit a r ev s) = rooms s"
  "user (socket_to_emit a r ev s) = user s"
  "userId (socket_to_emit a r ev s) = userId s"
  "received (socket_to_emit a r ev s) c =
     (if c \<in> connected s \<and> r \<in> rooms s c \<and> c \<noteq> a then received s c @ [ev]
      else received s c)"
  by (simp_all add: socket_to_emit_def)

lemma socket_broadcast_emit_simps [simp]:
  "connected (socket_broadcast_emit a ev s) = connected s"
  "rooms (socket_broadcast_emit a ev s) = rooms s"
  "user (socket_broadcast_emit a ev s) = user s"
  "userId (socket_broadcast_emit a ev s) = userId s"
  "received (socket_broadcast_emit a ev s) c =
     (if c \<in> connected s \<and> c \<noteq> a then received s c @ [ev] else received s c)"
  by (simp_all add: socket_broadcast_emit_def)

lemma io_emit_simps [simp]:
  "connected (io_emit ev s) = connected s"
  "rooms (io_emit ev s) = rooms s"
  "user (io_emit ev s) = user s"
  "userId (io_emit ev s) = userId s"
  "received (io_emit ev s) c =
     (if c \<in> connected s then received s c @ [ev] else received s c)"
  by (simp_all add: io_emit_def)

lemma socket_join_simps [simp]:
  "connected (socket_join a r s) = connected s"
  "rooms (socket_join a r s) c = (if c = a then insert r (rooms s a) else rooms s c)"
  "user (socket_join a r s) = user s"
  "userId (socket_join a r s) = userId s"
  "received (socket_join a r s) = received s"
  by (simp_all add: socket_join_def)

lemma socket_leave_simps [simp]:
  "connected (socket_leave a r s) = connected s"
  "rooms (socket_leave a r s) c = (if c = a then rooms s a - {r} else rooms s c)"
  "user (socket_leave a r s) = user s"
  "userId (socket_leave a r s) = userId s"
  "received (socket_leave a r s) = received s"
  by (simp_all add: socket_leave_def)

lemma socket_onclose_simps [simp]:
  "connected (socket_onclose a s) = connected s - {a}"
  "rooms (socket_onclose a s) c = (if c = a then {} else rooms s c)"
  "user (socket_onclose a s) = user s"
  "userId (socket_onclose a s) = userId s"
  "received (socket_onclose a s) = received s"
  by (simp_all add: socket_onclose_def)

lemma connection_simps [simp]:
  "connected (connection a s) = insert a (connected s)"
  "rooms (connection a s) c = (if c = a then {a} else rooms s c)"
  "user (connection a s) c = (if c = a then None else user s c)"
  "userId (connection a s) c = (if c = a then None else userId s c)"
  "received (connection a s) c = (if c = a then [] else received s c)"
  by (simp_all add: connection_def)

lemma init_server_simps [simp]:
  "connected init_server = {}"
  "rooms init_server c = {}"
  "user init_server c = None"
  "userId init_server c = None"
  "received init_server c = []"
  by (simp_all add: init_server_def)

lemma fst_getUserForSocket:
  "fst (getUserForSocket e a s) = (case user s a of None \<Rightarrow> createDemoUser e a | Some u \<Rightarrow> u)"
  by (simp add: getUserForSocket_def Let_def split: option.splits)

lemma getUserForSocket_user_at [simp]:
  "user (snd (getUserForSocket e a s)) c =
     (if c = a then Some (fst (getUserForSocket e a s)) else user s c)"
  by simp

section \<open>Printing a room id\<close>

lemma collect_Inl: "collect rs = Inl err \<Longrightarrow> Inl err \<in> set rs"
  by (induction rs rule: collect.induct) (auto split: sum.splits)

lemma js_toString_error:
  "js_toString v = Inl err \<Longrightarrow> err = TypeError ''Cannot convert object to primitive value''"
proof (induction v arbitrary: err rule: js_toString.induct)
  case (6 xs)
  from "6.prems" have
    "collect (map (\<lambda>x. if x = JUndefined \<or> x = JNull then Inr [] else js_toString x) xs) = Inl err"
    by (simp split: sum.splits)
  then obtain x where "x \<in> set xs" "x \<noteq> JUndefined" "x \<noteq> JNull" "js_toString x = Inl err"
    by (auto dest!: collect_Inl split: if_splits)
  then show ?case using "6.IH" by blast
qed (auto split: option.splits)

lemma getRoomName_JStr [simp]: "getRoomName (JStr str) = Inr (''room:'' @ str)"
  by (simp add: getRoomName_def)

lemma getRoomName_error:
  "getRoomName R = Inl err \<Longrightarrow> err = TypeError ''Cannot convert object to primitive value''"
  by (auto simp add: getRoomName_def split: sum.splits dest: js_toString_error)


section \<open>What the handlers do on an object payload\<close>

lemma join_room_falsy:
  assumes "falsy R"
  shows "join_room e a (JObj [(''roomId'', R)]) s =
         socket_emit a (''error'', JObj [(''message'', JStr ''Room ID is required'')]) s"
  using assms by (simp add: join_room_def join_room_try_def Let_def)

lemma join_room_truthy:
  assumes "truthy R" and "getRoomName R = Inr rn"
  shows "join_room e a (JObj [(''roomId'', R)]) s =
     socket_emit a
       (''room_joined'', JObj [(''roomId'', R), (''message'', JStr ''Successfully joined room'')])
       (socket_to_emit a rn
          (''user_joined'',
           JObj [(''userId'', JStr (user_id (fst (getUserForSocket e a s)))),
                 (''user'', user_public (fst (getUserForSocket e a s))),
                 (''timestamp'', JStr (iso_string e))])
          (socket_join a rn (snd (getUserForSocket e a s))))"
  using assms
  by (simp add: join_room_def join_room_try_def truthy_def Let_def case_prod_beta)

lemma join_room_throws:
  assumes "truthy R" and "getRoomName R = Inl err"
  shows "join_room e a (JObj [(''roomId'', R)]) s =
         handleSocketError a err ''join_room'' (snd (getUserForSocket e a s))"
  using assms
  by (simp add: join_room_def join_room_try_def truthy_def Let_def case_prod_beta)

lemma handleSocketError_simps [simp]:
  "connected (handleSocketError a err name s) = connected s"
  "rooms (handleSocketError a err name s) = rooms s"
  "user (handleSocketError a err name s) = user s"
  "userId (handleSocketError a err name s) = userId s"
  "received (handleSocketError a err name s) c =
     (if c = a \<and> c \<in> connected s
      then received s c @
             [(''error'',
               JObj [(''message'', js_or (JStr (error_message err)) (JStr ''An error occurred'')),
                     (''code'', JStr ''UNKNOWN_ERROR'')])]
      else received s c)"
  by (auto simp add: handleSocketError_def js_or_def)

lemma join_room_connected [simp]: "connected (join_room e a data s) = connected s"
  by (auto simp add: join_room_def join_room_try_def destructure_def Let_def case_prod_beta
        split: sum.splits)

text \<open>The same, field by field, for a room id that is a non-empty string.\<close>

lemma join_room_JStr_rooms:
  assumes "r \<noteq> []"
  shows "rooms (join_room e a (JObj [(''roomId'', JStr r)]) s) c =
           (if c = a then insert (''room:'' @ r) (rooms s a) else rooms s c)"
proof -
  have t: "truthy (JStr r)" using assms by (simp add: truthy_def)
  show ?thesis
    by (simp add: join_room_truthy [OF t getRoomName_JStr])
qed

lemma join_room_JStr_user:
  assumes "r \<noteq> []"
  shows "user (join_room e a (JObj [(''roomId'', JStr r)]) s) c =
           (if c = a then Some (fst (getUserForSocket e a s)) else user s c)"
proof -
  have t: "truthy (JStr r)" using assms by (simp add: truthy_def)
  show ?thesis
    by (simp add: join_room_truthy [OF t getRoomName_JStr])
qed

lemma join_room_JStr_received_own:
  assumes "r \<noteq> []"
  shows "received (join_room e a (JObj [(''roomId'', JStr r)]) s) a =
           (if a \<in> connected s then
              received s a @
                [(''room_joined'',
                  JObj [(''roomId'', JStr r), (''message'', JStr ''Successfully joined room'')])]
            else received s a)"
proof -
  have t: "truthy (JStr r)" using assms by (simp add: truthy_def)
  show ?thesis
    by (simp add: join_room_truthy [OF t getRoomName_JStr])
qed

lemma join_room_JStr_received_other:
  assumes "r \<noteq> []" and "c \<noteq> a"
  shows "received (join_room e a (JObj [(''roomId'', JStr r)]) s) c =
           (if c \<in> connected s \<and> ''room:'' @ r \<in> rooms s c then
              received s c @
                [(''user_joined'',
                  JObj [(''userId'', JStr (user_id (fst (getUserForSocket e a s)))),
                        (''user'', user_public (fst (getUserForSocket e a s))),
                        (''timestamp'', JStr (iso_string e))])]
            else received s c)"
proof -
  have t: "truthy (JStr r)" using assms by (simp add: truthy_def)
  show ?thesis
    using assms(2) by (simp add: join_room_truthy [OF t getRoomName_JStr])
qed

lemmas join_room_JStr =
  join_room_JStr_rooms join_room_JStr_user join_room_JStr_received_own
  join_room_JStr_received_other



lemma typing_start_truthy:
  assumes "truthy R" and "getRoomName R = Inr rn"
  shows "typing_start e a (JObj [(''roomId'', R)]) s =
     Inr (socket_to_emit a rn
            (''user_typing'',
             JObj [(''userId'', JStr (user_id (fst (getUserForSocket e a s)))),
                   (''user'', user_names (fst (getUserForSocket e a s))),
                   (''timestamp'', JStr (iso_string e))])
            (snd (getUserForSocket e a s)))"
  using assms by (simp add: typing_start_def Let_def case_prod_beta)

lemma typing_stop_truthy:
  assumes "truthy R" and "getRoomName R = Inr rn"
  shows "typing_stop e a (JObj [(''roomId'', R)]) s =
     Inr (socket_to_emit a rn
            (''user_stopped_typing'',
             JObj [(''userId'', JStr (user_id (fst (getUserForSocket e a s)))),
                   (''timestamp'', JStr (iso_string e))])
            (snd (getUserForSocket e a s)))"
  using assms by (simp add: typing_stop_def Let_def case_prod_beta)

section \<open>Rooms change only by asking\<close>















section \<open>send_message without a room id\<close>

text \<open>
  C7. A connected socket \<open>a\<close> sends \<open>send_message\<close> with payload
  \<open>{roomId: null, content: "x"}\<close>. The server state afterwards is the state before with one
  event appended to what \<open>a\<close>'s client has received, namely
  \<open>error {message: "Room ID and content are required"}\<close>: no other client receives anything
  (so no \<open>message_sent\<close> and no \<open>new_message\<close> goes out), and rooms, users and connections
  are as they were.
\<close>

theorem send_message_null_room_id:
  assumes "a \<in> connected s"
  shows "send_message e a (JObj [(''roomId'', JNull), (''content'', JStr ''x'')]) s =
         s\<lparr> received := (received s)(a := received s a @
              [(''error'', JObj [(''message'', JStr ''Room ID and content are required'')])]) \<rparr>"
  using assms
  by (auto simp add: send_message_def send_message_try_def socket_emit_def Let_def fun_eq_iff)

theorem send_message_null_room_id_witness:
  "(let e = \<lparr> date_now = 42, new_date = 42, iso_string = ''t42'', random36 = ''k3'' \<rparr>;
        s = connection ''B'' (connection ''A'' init_server)
    in ''A'' \<in> connected s \<and>
       received (send_message e ''A'' (JObj [(''roomId'', JNull), (''content'', JStr ''x'')]) s) ''A'' =
         [(''error'', JObj [(''message'', JStr ''Room ID and content are required'')])] \<and>
       received (send_message e ''A'' (JObj [(''roomId'', JNull), (''content'', JStr ''x'')]) s) ''B'' = [] \<and>
       rooms (send_message e ''A'' (JObj [(''roomId'', JNull), (''content'', JStr ''x'')]) s) = rooms s \<and>
       user (send_message e ''A'' (JObj [(''roomId'', JNull), (''content'', JStr ''x'')]) s) = user s)"
  using send_message_null_room_id [of "''A''" "connection ''B'' (connection ''A'' init_server)"
      "\<lparr> date_now = 42, new_date = 42, iso_string = ''t42'', random36 = ''k3'' \<rparr>"]
  by (simp add: Let_def connection_def init_server_def)

section \<open>The identity of a socket\<close>

text \<open>
  C9. On a socket \<open>a\<close> that has no user yet, \<open>getUserForSocket\<close> returns a user whose
  \<open>id\<close> is the socket id, whose \<open>firstName\<close> is \<open>"User"\<close> followed by the last four
  characters of the socket id and whose \<open>lastName\<close> is \<open>"Demo"\<close>, whatever the clock reads
  (of the user's fields only \<open>lastSeen\<close> is read from the clock), and attaches it to the
  socket. A later call on that socket, at any later clock reading, returns that same user and
  leaves the state as it is; so does every call on a socket that has a user attached.
\<close>

theorem getUserForSocket_identity:
  assumes "user s a = None" and "getUserForSocket e a s = (u, s1)"
  shows "user_id u = a \<and> firstName u = JStr (''User'' @ slice_last4 a) \<and>
         lastName u = JStr ''Demo'' \<and> user s1 a = Some u \<and>
         getUserForSocket e' a s1 = (u, s1) \<and>
         (\<forall>t v. user t a = Some v \<longrightarrow> getUserForSocket e' a t = (v, t))"
  using assms
  by (auto simp add: getUserForSocket_def createDemoUser_def Let_def)

theorem getUserForSocket_identity_witness:
  "(let s = connection ''sk_9fQ2xYzA'' init_server;
        e = \<lparr> date_now = 7, new_date = 7, iso_string = ''t7'', random36 = ''k3'' \<rparr>;
        e' = \<lparr> date_now = 9, new_date = 9, iso_string = ''t9'', random36 = ''zz'' \<rparr>
    in user s ''sk_9fQ2xYzA'' = None \<and>
       user_id (fst (getUserForSocket e ''sk_9fQ2xYzA'' s)) = ''sk_9fQ2xYzA'' \<and>
       firstName (fst (getUserForSocket e ''sk_9fQ2xYzA'' s)) = JStr ''UserxYzA'' \<and>
       lastName (fst (getUserForSocket e ''sk_9fQ2xYzA'' s)) = JStr ''Demo'' \<and>
       getUserForSocket e' ''sk_9fQ2xYzA'' (snd (getUserForSocket e ''sk_9fQ2xYzA'' s)) =
         getUserForSocket e ''sk_9fQ2xYzA'' s)"
proof -
  let ?s = "connection ''sk_9fQ2xYzA'' init_server"
  let ?e = "\<lparr> date_now = 7, new_date = 7, iso_string = ''t7'', random36 = ''k3'' \<rparr>"
  let ?e' = "\<lparr> date_now = 9, new_date = 9, iso_string = ''t9'', random36 = ''zz'' \<rparr>"
  have fresh: "user ?s ''sk_9fQ2xYzA'' = None"
    by (simp add: connection_def init_server_def)
  have run: "getUserForSocket ?e ''sk_9fQ2xYzA'' ?s =
             (fst (getUserForSocket ?e ''sk_9fQ2xYzA'' ?s), snd (getUserForSocket ?e ''sk_9fQ2xYzA'' ?s))"
    by simp
  from getUserForSocket_identity [OF fresh run, of ?e'] fresh
  show ?thesis by (simp add: Let_def slice_last4_def)
qed

section \<open>update_profile\<close>

text \<open>
  C10. \<open>update_profile\<close> on socket \<open>a\<close> touches the user of no other socket. When the
  payload is missing the handler's \<open>catch\<close> clause runs and \<open>a\<close>'s user is as before.
  Otherwise \<open>a\<close>'s user afterwards has, for each of \<open>firstName\<close>, \<open>lastName\<close> and
  \<open>avatar\<close>, the payload's value when that value is truthy and the previous value when it is
  absent or falsy (an empty string, say); \<open>id\<close>, \<open>email\<close>, \<open>role\<close>, \<open>isOnline\<close> and
  \<open>lastSeen\<close> keep their previous values. The previous values are those of the user
  \<open>getUserForSocket\<close> finds or creates for the socket.
\<close>

theorem update_profile_fields:
  "let s' = update_profile e a data s; u0 = fst (getUserForSocket e a s);
       fn = get_prop data ''firstName''; ln = get_prop data ''lastName'';
       av = get_prop data ''avatar''
   in (\<forall>c. c \<noteq> a \<longrightarrow> user s' c = user s c) \<and>
      (if data = JUndefined \<or> data = JNull then user s' a = user s a
       else (\<exists>u. user s' a = Some u \<and>
               firstName u = (if truthy fn then fn else firstName u0) \<and>
               lastName u = (if truthy ln then ln else lastName u0) \<and>
               avatar u = (if truthy av then av else avatar u0) \<and>
               user_id u = user_id u0 \<and> email u = email u0 \<and> role u = role u0 \<and>
               isOnline u = isOnline u0 \<and> lastSeen u = lastSeen u0))"
  by (cases "getUserForSocket e a s")
     (auto simp add: update_profile_def update_profile_try_def destructure_def Let_def
        handleSocketError_def socket_emit_def socket_broadcast_emit_def apply_profile_def
        getUserForSocket_def split: option.splits)

theorem update_profile_fields_witness:
  "(let s' = update_profile \<lparr> date_now = 7, new_date = 7, iso_string = ''t7'', random36 = ''k3'' \<rparr> ''sk_1''
              (JObj [(''firstName'', JStr ''Ada''), (''lastName'', JStr [])])
              (connection ''sk_1'' init_server)
    in user s' ''sk_2'' = None \<and>
       map_option firstName (user s' ''sk_1'') = Some (JStr ''Ada'') \<and>
       map_option lastName (user s' ''sk_1'') = Some (JStr ''Demo'') \<and>
       map_option avatar (user s' ''sk_1'') = Some JNull \<and>
       map_option email (user s' ''sk_1'') = Some ''usersk_1@demo.com'')"
  using update_profile_fields [of "\<lparr> date_now = 7, new_date = 7, iso_string = ''t7'', random36 = ''k3'' \<rparr>"
      "''sk_1''" "JObj [(''firstName'', JStr ''Ada''), (''lastName'', JStr [])]"
      "connection ''sk_1'' init_server"]
  by (auto simp add: Let_def truthy_def getUserForSocket_def createDemoUser_def connection_def
        init_server_def slice_last4_def)

section \<open>send_message to a room\<close>



section \<open>Typing indicators\<close>

text \<open>
  C2, evaluated. Sockets \<open>A\<close> and \<open>B\<close> are connected and have joined room \<open>r1\<close>; \<open>A\<close>
  sends \<open>typing_start {roomId: "r1"}\<close> and then \<open>typing_stop {roomId: "r1"}\<close>. Both
  handlers return normally. \<open>A\<close> receives nothing beyond the two events of the joins.
  \<open>B\<close> receives, after the one event of its join, first a \<open>user_typing\<close> event with the
  properties \<open>userId\<close>, \<open>user\<close> and \<open>timestamp\<close> and no \<open>isTyping\<close>, then an event
  named \<open>user_stopped_typing\<close> with \<open>userId\<close> and \<open>timestamp\<close>: one \<open>user_typing\<close>
  event, not two, and no \<open>isTyping\<close> flag on either.
\<close>

theorem typing_start_stop_events:
  "(let e = \<lparr> date_now = 42, new_date = 42, iso_string = ''t42'', random36 = ''k3'' \<rparr>;
        e' = \<lparr> date_now = 43, new_date = 43, iso_string = ''t43'', random36 = ''k4'' \<rparr>;
        s = join_room e ''B'' (JObj [(''roomId'', JStr ''r1'')])
              (join_room e ''A'' (JObj [(''roomId'', JStr ''r1'')])
                 (connection ''B'' (connection ''A'' init_server)))
    in map_sum id (\<lambda>t. (drop 2 (received t ''A''), drop 1 (received t ''B'')))
         (and_then (typing_start e ''A'' (JObj [(''roomId'', JStr ''r1'')]) s)
                   (typing_stop e' ''A'' (JObj [(''roomId'', JStr ''r1'')]))) =
       Inr ([],
            [(''user_typing'',
              JObj [(''userId'', JStr ''A''),
                    (''user'', JObj [(''id'', JStr ''A''), (''firstName'', JStr ''UserA''),
                                     (''lastName'', JStr ''Demo'')]),
                    (''timestamp'', JStr ''t42'')]),
             (''user_stopped_typing'',
              JObj [(''userId'', JStr ''A''), (''timestamp'', JStr ''t43'')])]))"
  by (simp add: Let_def and_then_def typing_start_truthy typing_stop_truthy join_room_truthy
        truthy_def fst_getUserForSocket createDemoUser_def user_names_def slice_last4_def)

text \<open>
  C6, evaluated. \<open>typing_start\<close> and \<open>typing_stop\<close> sent without a payload: the
  destructuring throws a \<open>TypeError\<close>, which leaves the handler, since neither has a
  \<open>try\<close>; no \<open>error\<close> event is sent. With a payload object that lacks \<open>roomId\<close>
  both return normally and change nothing, again without an \<open>error\<close> event. The sibling
  handler \<open>join_room\<close>, sent without a payload, catches the same \<open>TypeError\<close> and reports
  it to the sender as an \<open>error\<close> event; the logging listener that \<open>index.js\<close> adds to
  \<open>join_room\<close> then throws on the same missing payload.
\<close>

theorem typing_missing_payload_throws:
  "typing_start e a JUndefined s =
     Inl (TypeError (''Cannot destructure property '' @ [CHR 0x27] @ ''roomId'' @ [CHR 0x27] @
                        '' of '' @ [CHR 0x27] @ ''data'' @ [CHR 0x27] @ '' as it is undefined.'')) \<and>
   typing_stop e a JUndefined s =
     Inl (TypeError (''Cannot destructure property '' @ [CHR 0x27] @ ''roomId'' @ [CHR 0x27] @
                        '' of '' @ [CHR 0x27] @ ''data'' @ [CHR 0x27] @ '' as it is undefined.'')) \<and>
   typing_start e a (JObj []) s = Inr s \<and> typing_stop e a (JObj []) s = Inr s \<and>
   join_room e a JUndefined s =
     socket_emit a
       (''error'',
        JObj [(''message'',
               JStr (''Cannot destructure property '' @ [CHR 0x27] @ ''roomId'' @ [CHR 0x27] @
                     '' of '' @ [CHR 0x27] @ ''data'' @ [CHR 0x27] @ '' as it is undefined.'')),
              (''code'', JStr ''UNKNOWN_ERROR'')]) s \<and>
   on_join_room e a JUndefined s =
     Inl (TypeError (''Cannot read properties of undefined (reading '' @ [CHR 0x27] @
                     ''roomId'' @ [CHR 0x27] @ '')''))"
  by (simp add: typing_start_def typing_stop_def destructure_def truthy_def
        join_room_def join_room_try_def handleSocketError_def js_or_def
        on_join_room_def read_prop_def)

section \<open>Room ids and decimal printing\<close>

lemma digit_nth_eq: "i < 10 \<Longrightarrow> j < 10 \<Longrightarrow> (''0123456789'' ! i = ''0123456789'' ! j) = (i = j)"
proof -
  have d: "distinct ''0123456789''" by simp
  assume "i < 10" "j < 10"
  then show ?thesis using nth_eq_iff_index_eq [OF d, of i j] by simp
qed

lemma show_nat_not_Nil: "show_nat n \<noteq> []"
  by (subst show_nat.simps) simp

lemma show_nat_digits: "c \<in> set (show_nat n) \<Longrightarrow> c \<in> set ''0123456789''"
proof (induction n arbitrary: c rule: show_nat.induct)
  case (1 n)
  show ?case
  proof (cases "n < 10")
    case True
    with "1.prems" have "c = ''0123456789'' ! n" by (subst (asm) show_nat.simps) simp
    moreover have "''0123456789'' ! n \<in> set ''0123456789''" using True by (intro nth_mem) simp
    ultimately show ?thesis by simp
  next
    case False
    with "1.prems" have "c \<in> set (show_nat (n div 10)) \<or> c = ''0123456789'' ! (n mod 10)"
      by (subst (asm) show_nat.simps) auto
    moreover have "''0123456789'' ! (n mod 10) \<in> set ''0123456789''" by (intro nth_mem) simp
    ultimately show ?thesis using "1.IH" [OF False] by blast
  qed
qed

lemma show_nat_inj: "show_nat n = show_nat m \<Longrightarrow> n = m"
proof (induction n arbitrary: m rule: show_nat.induct)
  case (1 n)
  show ?case
  proof (cases "n < 10")
    case n: True
    show ?thesis
    proof (cases "m < 10")
      case True
      with n "1.prems" have "''0123456789'' ! n = ''0123456789'' ! m"
        by (simp add: show_nat.simps [of n] show_nat.simps [of m])
      with n True show ?thesis by (simp add: digit_nth_eq)
    next
      case False
      with n "1.prems" show ?thesis
        using show_nat_not_Nil [of "m div 10"]
        by (simp add: show_nat.simps [of n] show_nat.simps [of m])
    qed
  next
    case n: False
    show ?thesis
    proof (cases "m < 10")
      case True
      with n "1.prems" show ?thesis
        using show_nat_not_Nil [of "n div 10"]
        by (simp add: show_nat.simps [of n] show_nat.simps [of m])
    next
      case False
      with n "1.prems" have eq: "show_nat (n div 10) = show_nat (m div 10)"
        and d: "''0123456789'' ! (n mod 10) = ''0123456789'' ! (m mod 10)"
        by (simp_all add: show_nat.simps [of n] show_nat.simps [of m])
      from "1.IH" [OF n eq] have "n div 10 = m div 10" .
      moreover from d have "n mod 10 = m mod 10" by (simp add: digit_nth_eq)
      ultimately show ?thesis by (metis div_mult_mod_eq)
    qed
  qed
qed

lemma split_at_marker:
  assumes "u \<notin> set xs" and "u \<notin> set ys" and "xs @ u # r = ys @ u # r'"
  shows "xs = ys \<and> r = r'"
proof -
  have "takeWhile (\<lambda>c. c \<noteq> u) (xs @ u # r) = xs"
    using assms(1) by (subst takeWhile_append2) auto
  moreover have "takeWhile (\<lambda>c. c \<noteq> u) (ys @ u # r') = ys"
    using assms(2) by (subst takeWhile_append2) auto
  ultimately have "xs = ys" using assms(3) by simp
  with assms(3) show ?thesis by simp
qed

lemma new_room_id_inj:
  "(new_room_id e = new_room_id e') = (date_now e = date_now e' \<and> random36 e = random36 e')"
proof
  assume "new_room_id e = new_room_id e'"
  then have eq: "show_nat (date_now e) @ CHR ''_'' # random36 e =
                 show_nat (date_now e') @ CHR ''_'' # random36 e'"
    by (simp add: new_room_id_def)
  have "CHR ''_'' \<notin> set (show_nat (date_now e))" "CHR ''_'' \<notin> set (show_nat (date_now e'))"
    using show_nat_digits by fastforce+
  from split_at_marker [OF this eq] show "date_now e = date_now e' \<and> random36 e = random36 e'"
    by (auto dest: show_nat_inj)
next
  assume "date_now e = date_now e' \<and> random36 e = random36 e'"
  then show "new_room_id e = new_room_id e'" by (simp add: new_room_id_def)
qed

lemma new_room_id_truthy [simp]: "truthy (JStr (new_room_id e))"
  by (simp add: truthy_def new_room_id_def)

section \<open>join_room\<close>

text \<open>
  C5, the claim as stated fails. On a server where one socket \<open>A\<close> has connected and no
  room has ever been created, \<open>join_room {roomId: "no-such-room"}\<close> puts \<open>A\<close> into the
  Socket.IO room \<open>room:no-such-room\<close>, and the one event \<open>A\<close> receives is the
  confirmation \<open>room_joined\<close>: no error is reported.
\<close>

theorem join_room_unknown_room_counterexample:
  "rooms (join_room \<lparr> date_now = 42, new_date = 42, iso_string = ''t42'', random36 = ''k3'' \<rparr> ''A''
            (JObj [(''roomId'', JStr ''no-such-room'')]) (connection ''A'' init_server)) ''A'' =
     {''A'', ''room:no-such-room''} \<and>
   received (join_room \<lparr> date_now = 42, new_date = 42, iso_string = ''t42'', random36 = ''k3'' \<rparr> ''A''
            (JObj [(''roomId'', JStr ''no-such-room'')]) (connection ''A'' init_server)) ''A'' =
     [(''room_joined'',
       JObj [(''roomId'', JStr ''no-such-room''), (''message'', JStr ''Successfully joined room'')])]"
  by (simp add: join_room_truthy truthy_def insert_commute)

text \<open>
  C5, amended. The handlers keep no directory of rooms, and \<open>join_room\<close> looks none up: it
  never reports that a room is not found. For a connected socket \<open>a\<close> and a payload
  \<open>{roomId: R}\<close>: the connected sockets stay the same and no other socket's rooms change.
  If \<open>R\<close> is missing or falsy, \<open>a\<close>'s rooms and all users are unchanged and \<open>a\<close> receives
  \<open>error {message: "Room ID is required"}\<close>. If \<open>R\<close> is truthy and \<open>getRoomName\<close> prints it
  into a room name, \<open>a\<close> is added to the Socket.IO room of that name, whether or not a
  \<open>create_room\<close> ever issued \<open>R\<close>, and receives \<open>room_joined\<close>; a second \<open>join_room\<close>
  for the same room leaves the rooms as they are. If \<open>R\<close> is truthy and printing it throws
  (as for the object \<open>{"toString": "x"}\<close>), \<open>a\<close>'s rooms are unchanged and \<open>a\<close> receives
  \<open>error {message: "Cannot convert object to primitive value", code: "UNKNOWN_ERROR"}\<close>.
\<close>

theorem join_room_membership:
  assumes "a \<in> connected s"
  shows "let s' = join_room e a (JObj [(''roomId'', R)]) s in
         connected s' = connected s \<and>
         (\<forall>c. c \<noteq> a \<longrightarrow> rooms s' c = rooms s c) \<and>
         (if falsy R then
            rooms s' a = rooms s a \<and> user s' = user s \<and>
            received s' a =
              received s a @ [(''error'', JObj [(''message'', JStr ''Room ID is required'')])]
          else
            (case getRoomName R of
               Inr rn \<Rightarrow>
                 rooms s' a = insert rn (rooms s a) \<and>
                 received s' a =
                   received s a @
                     [(''room_joined'',
                       JObj [(''roomId'', R), (''message'', JStr ''Successfully joined room'')])] \<and>
                 rooms (join_room e' a (JObj [(''roomId'', R)]) s') = rooms s'
             | Inl err \<Rightarrow>
                 rooms s' a = rooms s a \<and>
                 received s' a =
                   received s a @
                     [(''error'',
                       JObj [(''message'', JStr ''Cannot convert object to primitive value''),
                             (''code'', JStr ''UNKNOWN_ERROR'')])]))"
proof (cases "falsy R")
  case True
  with assms show ?thesis by (simp add: join_room_falsy Let_def)
next
  case False
  then have t: "truthy R" by (simp add: truthy_def)
  show ?thesis
  proof (cases "getRoomName R")
    case (Inl err)
    then have "err = TypeError ''Cannot convert object to primitive value''"
      by (rule getRoomName_error)
    with assms False t Inl show ?thesis
      by (simp add: join_room_throws Let_def js_or_def)
  next
    case (Inr rn)
    with assms False t show ?thesis
      by (auto simp add: join_room_truthy Let_def fun_eq_iff)
  qed
qed

theorem join_room_membership_witness:
  "(let e = \<lparr> date_now = 42, new_date = 42, iso_string = ''t42'', random36 = ''k3'' \<rparr>;
        s = connection ''A'' init_server;
        s1 = join_room e ''A'' (JObj [(''roomId'', JStr ''lobby'')]) s;
        s2 = join_room e ''A'' (JObj [(''roomId'', JStr ''lobby'')]) s1;
        s3 = join_room e ''A'' (JObj [(''roomId'', JStr [])]) s;
        s4 = join_room e ''A'' (JObj [(''roomId'', JObj [(''toString'', JStr ''x'')])]) s
    in ''A'' \<in> connected s \<and>
       rooms s1 ''A'' = {''room:lobby'', ''A''} \<and> rooms s2 ''A'' = {''room:lobby'', ''A''} \<and>
       rooms s3 ''A'' = {''A''} \<and>
       received s3 ''A'' = [(''error'', JObj [(''message'', JStr ''Room ID is required'')])] \<and>
       rooms s4 ''A'' = {''A''} \<and>
       received s4 ''A'' =
         [(''error'',
           JObj [(''message'', JStr ''Cannot convert object to primitive value''),
                 (''code'', JStr ''UNKNOWN_ERROR'')])])"
proof -
  let ?e = "\<lparr> date_now = 42, new_date = 42, iso_string = ''t42'', random36 = ''k3'' \<rparr>"
  let ?s = "connection ''A'' init_server"
  have h: "''A'' \<in> connected ?s" by simp
  have n: "getRoomName (JObj [(''toString'', JStr ''x'')]) =
           Inl (TypeError ''Cannot convert object to primitive value'')"
    by (simp add: getRoomName_def)
  from join_room_membership [OF h, of ?e "JStr ''lobby''" ?e]
       join_room_membership [OF h, of ?e "JStr []" ?e]
       join_room_membership [OF h, of ?e "JObj [(''toString'', JStr ''x'')]" ?e] h n
  show ?thesis by (simp add: Let_def)
qed

section \<open>create_room and get_room_members\<close>

lemma truthy_prop_destructure:
  "truthy (get_prop data k) \<Longrightarrow> destructure k' data = Inr data"
  by (cases data) (simp_all add: truthy_def destructure_def)

text \<open>What \<open>create_room\<close> does with a truthy name.\<close>

lemma create_room_rooms:
  assumes "truthy (get_prop data ''name'')"
  shows "rooms (create_room e a data s) c =
         (if c = a then insert (''room:'' @ new_room_id e) (rooms s a) else rooms s c)"
  using assms
  by (simp add: create_room_def create_room_try_def truthy_prop_destructure truthy_def Let_def
        case_prod_beta)

lemma create_room_connected:
  assumes "truthy (get_prop data ''name'')"
  shows "connected (create_room e a data s) = connected s"
  using assms
  by (simp add: create_room_def create_room_try_def truthy_prop_destructure truthy_def Let_def
        case_prod_beta)

lemma create_room_received:
  assumes "truthy (get_prop data ''name'')" and "a \<in> connected s"
  shows "\<exists>p q. received (create_room e a data s) a =
                 received s a @ [(''room_created'', p), (''room_created_success'', q)] \<and>
               get_prop (get_prop p ''room'') ''memberCount'' = JNum ''1'' \<and>
               get_prop (get_prop p ''room'') ''id'' = JStr (new_room_id e) \<and>
               get_prop (get_prop q ''room'') ''id'' = JStr (new_room_id e)"
  using assms
  by (simp add: create_room_def create_room_try_def truthy_prop_destructure truthy_def Let_def
        case_prod_beta)

lemma get_room_members_truthy:
  assumes "truthy R"
  shows "get_room_members a (JObj [(''roomId'', R)]) s =
         socket_emit a
           (''room_members'',
            JObj [(''roomId'', R), (''members'', JArr []), (''count'', JNum ''0'')]) s"
  using assms
  by (simp add: get_room_members_def get_room_members_try_def truthy_def Let_def)

text \<open>
  C4, the claim as stated fails. Socket \<open>A\<close> connects and creates the room \<open>Lounge\<close>
  when the clock reads 42 and the random suffix is \<open>k3\<close>; the id it is told is
  \<open>room_42_k3\<close>. Its \<open>get_room_members\<close> request for that id is answered with an empty
  member list and count 0, not with the creator and count 1.
\<close>

theorem create_room_members_counterexample:
  "last (received
     (get_room_members ''A'' (JObj [(''roomId'', JStr ''room_42_k3'')])
        (create_room \<lparr> date_now = 42, new_date = 42, iso_string = ''t42'', random36 = ''k3'' \<rparr>
           ''A'' (JObj [(''name'', JStr ''Lounge'')]) (connection ''A'' init_server))) ''A'') =
     (''room_members'',
      JObj [(''roomId'', JStr ''room_42_k3''), (''members'', JArr []), (''count'', JNum ''0'')]) \<and>
   get_prop (get_prop (snd (last (received
        (create_room \<lparr> date_now = 42, new_date = 42, iso_string = ''t42'', random36 = ''k3'' \<rparr>
           ''A'' (JObj [(''name'', JStr ''Lounge'')]) (connection ''A'' init_server)) ''A'')))
      ''room'') ''id'' = JStr ''room_42_k3''"
proof -
  let ?e = "\<lparr> date_now = 42, new_date = 42, iso_string = ''t42'', random36 = ''k3'' \<rparr>"
  let ?d = "JObj [(''name'', JStr ''Lounge'')]"
  let ?s = "connection ''A'' init_server"
  have n: "truthy (get_prop ?d ''name'')" by (simp add: truthy_def)
  have c: "''A'' \<in> connected ?s" by simp
  have id: "new_room_id ?e = ''room_42_k3''"
    by (simp add: new_room_id_def show_nat.simps)
  from create_room_received [OF n c, of ?e] id
  have "get_prop (get_prop (snd (last (received (create_room ?e ''A'' ?d ?s) ''A''))) ''room'') ''id'' =
        JStr ''room_42_k3''"
    by auto
  moreover have "last (received (get_room_members ''A'' (JObj [(''roomId'', JStr ''room_42_k3'')])
                   (create_room ?e ''A'' ?d ?s)) ''A'') =
     (''room_members'',
      JObj [(''roomId'', JStr ''room_42_k3''), (''members'', JArr []), (''count'', JNum ''0'')])"
    using n by (simp add: get_room_members_truthy truthy_def create_room_connected)
  ultimately show ?thesis by simp
qed

text \<open>
  C4, amended. A connected socket \<open>a\<close> sends \<open>create_room\<close> with a truthy name. The last
  event it receives (\<open>room_created_success\<close>) carries the new room's id; \<open>a\<close> has been added
  to the Socket.IO room of that id and no other socket's rooms have changed. A following
  \<open>get_room_members\<close> request for the new id is answered, to \<open>a\<close> alone, with
  \<open>room_members\<close> carrying that id, an empty member list and count 0 (the handler is a stub: "For
  demo purposes, return empty members list"), and changes no room.
\<close>

theorem create_room_then_members:
  assumes "a \<in> connected s" and "truthy (get_prop data ''name'')"
  shows "let s1 = create_room e a data s;
             rid = JStr (new_room_id e);
             s2 = get_room_members a (JObj [(''roomId'', rid)]) s1
         in get_prop (get_prop (snd (last (received s1 a))) ''room'') ''id'' = rid \<and>
            rooms s1 a = insert (''room:'' @ new_room_id e) (rooms s a) \<and>
            (\<forall>c. c \<noteq> a \<longrightarrow> rooms s1 c = rooms s c) \<and>
            received s2 a =
              received s1 a @
                [(''room_members'',
                  JObj [(''roomId'', rid), (''members'', JArr []), (''count'', JNum ''0'')])] \<and>
            (\<forall>c. c \<noteq> a \<longrightarrow> received s2 c = received s1 c) \<and>
            rooms s2 = rooms s1"
proof -
  from create_room_received [OF assms(2,1), of e]
  have "get_prop (get_prop (snd (last (received (create_room e a data s) a))) ''room'') ''id'' =
        JStr (new_room_id e)"
    by auto
  with assms show ?thesis
    by (simp add: Let_def get_room_members_truthy create_room_rooms create_room_connected)
qed

theorem create_room_then_members_witness:
  "(let e = \<lparr> date_now = 42, new_date = 42, iso_string = ''t42'', random36 = ''k3'' \<rparr>;
        s = connection ''B'' (connection ''A'' init_server);
        s1 = create_room e ''A'' (JObj [(''name'', JStr ''Lounge'')]) s;
        s2 = get_room_members ''A'' (JObj [(''roomId'', JStr ''room_42_k3'')]) s1
    in ''A'' \<in> connected s \<and> truthy (get_prop (JObj [(''name'', JStr ''Lounge'')]) ''name'') \<and>
       rooms s1 ''A'' = {''room:room_42_k3'', ''A''} \<and> rooms s1 ''B'' = {''B''} \<and>
       received s2 ''A'' =
         received s1 ''A'' @
           [(''room_members'',
             JObj [(''roomId'', JStr ''room_42_k3''), (''members'', JArr []), (''count'', JNum ''0'')])])"
proof -
  let ?e = "\<lparr> date_now = 42, new_date = 42, iso_string = ''t42'', random36 = ''k3'' \<rparr>"
  let ?d = "JObj [(''name'', JStr ''Lounge'')]"
  let ?s = "connection ''B'' (connection ''A'' init_server)"
  have h: "''A'' \<in> connected ?s" "truthy (get_prop ?d ''name'')" by (simp_all add: truthy_def)
  have id: "new_room_id ?e = ''room_42_k3''"
    by (simp add: new_room_id_def show_nat.simps)
  from create_room_then_members [OF h, of ?e] h id
  show ?thesis by (simp add: Let_def)
qed

text \<open>
  C8, the claim as stated fails. The id is built from the clock and a random suffix, and no record
  of issued ids is kept. Sockets \<open>A\<close> and \<open>B\<close> each create a room while the clock reads 42
  and the random suffix drawn is \<open>k3\<close> both times: both are told the id \<open>room_42_k3\<close>.
\<close>

theorem create_room_same_id_counterexample:
  "get_prop (get_prop (snd (last (received
      (create_room \<lparr> date_now = 42, new_date = 42, iso_string = ''t42'', random36 = ''k3'' \<rparr>
         ''A'' (JObj [(''name'', JStr ''Lounge'')])
         (connection ''B'' (connection ''A'' init_server))) ''A''))) ''room'') ''id'' =
     JStr ''room_42_k3'' \<and>
   get_prop (get_prop (snd (last (received
      (create_room \<lparr> date_now = 42, new_date = 42, iso_string = ''t42'', random36 = ''k3'' \<rparr>
         ''B'' (JObj [(''name'', JStr ''Den'')])
         (create_room \<lparr> date_now = 42, new_date = 42, iso_string = ''t42'', random36 = ''k3'' \<rparr>
            ''A'' (JObj [(''name'', JStr ''Lounge'')])
            (connection ''B'' (connection ''A'' init_server)))) ''B''))) ''room'') ''id'' =
     JStr ''room_42_k3''"
proof -
  let ?e = "\<lparr> date_now = 42, new_date = 42, iso_string = ''t42'', random36 = ''k3'' \<rparr>"
  let ?dA = "JObj [(''name'', JStr ''Lounge'')]"
  let ?dB = "JObj [(''name'', JStr ''Den'')]"
  let ?s = "connection ''B'' (connection ''A'' init_server)"
  have n: "truthy (get_prop ?dA ''name'')" "truthy (get_prop ?dB ''name'')"
    by (simp_all add: truthy_def)
  have c: "''A'' \<in> connected ?s" "''B'' \<in> connected (create_room ?e ''A'' ?dA ?s)"
    using n by (simp_all add: create_room_connected)
  have id: "new_room_id ?e = ''room_42_k3''"
    by (simp add: new_room_id_def show_nat.simps)
  from create_room_received [OF n(1) c(1), of ?e] create_room_received [OF n(2) c(2), of ?e] id
  show ?thesis by auto
qed

text \<open>
  C8, amended. The id \<open>create_room\<close> reports to the creator is \<open>room_\<close>, the clock's
  milliseconds in decimal, \<open>_\<close>, and the random suffix. Two such ids are equal exactly when both
  the clock readings and the random suffixes are equal: ids issued at different milliseconds, or
  with different suffixes, are distinct.
\<close>

theorem create_room_id_distinct:
  assumes "a \<in> connected s" and "truthy (get_prop data ''name'')"
  shows "get_prop (get_prop (snd (last (received (create_room e a data s) a))) ''room'') ''id'' =
           JStr (new_room_id e) \<and>
         (new_room_id e = new_room_id e') =
           (date_now e = date_now e' \<and> random36 e = random36 e')"
proof -
  from create_room_received [OF assms(2,1), of e]
  have "get_prop (get_prop (snd (last (received (create_room e a data s) a))) ''room'') ''id'' =
        JStr (new_room_id e)"
    by auto
  then show ?thesis by (simp add: new_room_id_inj)
qed

theorem create_room_id_distinct_witness:
  "(let e = \<lparr> date_now = 42, new_date = 42, iso_string = ''t42'', random36 = ''k3'' \<rparr>;
        e' = \<lparr> date_now = 42, new_date = 42, iso_string = ''t42'', random36 = ''k4'' \<rparr>;
        s = connection ''A'' init_server
    in ''A'' \<in> connected s \<and> truthy (get_prop (JObj [(''name'', JStr ''Lounge'')]) ''name'') \<and>
       get_prop (get_prop (snd (last (received
           (create_room e ''A'' (JObj [(''name'', JStr ''Lounge'')]) s) ''A''))) ''room'') ''id'' =
         JStr ''room_42_k3'' \<and>
       new_room_id e \<noteq> new_room_id e')"
proof -
  let ?e = "\<lparr> date_now = 42, new_date = 42, iso_string = ''t42'', random36 = ''k3'' \<rparr>"
  let ?e' = "\<lparr> date_now = 42, new_date = 42, iso_string = ''t42'', random36 = ''k4'' \<rparr>"
  let ?d = "JObj [(''name'', JStr ''Lounge'')]"
  let ?s = "connection ''A'' init_server"
  have h: "''A'' \<in> connected ?s" "truthy (get_prop ?d ''name'')" by (simp_all add: truthy_def)
  have id: "new_room_id ?e = ''room_42_k3''"
    by (simp add: new_room_id_def show_nat.simps)
  from create_room_id_distinct [OF h, of ?e ?e'] h id
  show ?thesis by (simp add: Let_def)
qed

section \<open>disconnect\<close>

lemma disconnect_broadcast:
  "disconnect e a s =
     socket_broadcast_emit a
       (''user_offline'',
        JObj [(''userId'', JStr (user_id (fst (getUserForSocket e a s)))),
              (''timestamp'', JStr (iso_string e))])
       (snd (getUserForSocket e a s))"
  by (simp add: disconnect_def case_prod_beta)

lemma getUserForSocket_onclose [simp]:
  "fst (getUserForSocket e a (socket_onclose a' s)) = fst (getUserForSocket e a s)"
  by (simp add: fst_getUserForSocket)

text \<open>
  C3. A connected socket \<open>a\<close> disconnects at the transport level. Every other connected
  socket, so every remaining member of every room \<open>a\<close> was in (of \<open>R1\<close> and of \<open>R2\<close>),
  receives one cleanup broadcast, the \<open>user_offline {userId, timestamp}\<close> event naming
  \<open>a\<close>'s user, and nothing else is sent to anyone. Afterwards \<open>a\<close> is a member of no room
  (the sockets of a room no longer include it, and \<open>getRoomMembers\<close> lists nobody), while the
  other sockets are in the rooms they were in. Running the cleanup a second time for the same
  disconnect changes nothing: the state stays exactly as the first run left it.
\<close>

theorem disconnect_cleanup:
  assumes "a \<in> connected s"
  shows "let s1 = on_transport_close e a s;
             offline = (''user_offline'',
                        JObj [(''userId'', JStr (user_id (fst (getUserForSocket e a s)))),
                              (''timestamp'', JStr (iso_string e))])
         in (\<forall>r b. b \<in> adapter_room s r \<and> b \<noteq> a \<longrightarrow>
                 received s1 b = received s b @ [offline] \<and> b \<in> adapter_room s1 r) \<and>
            (\<forall>c. received s1 c =
                 (if c \<in> connected s \<and> c \<noteq> a then received s c @ [offline] else received s c)) \<and>
            (\<forall>r. a \<notin> adapter_room s1 r) \<and> rooms s1 a = {} \<and>
            connected s1 = connected s - {a} \<and>
            (\<forall>c. c \<noteq> a \<longrightarrow> rooms s1 c = rooms s c) \<and>
            getRoomMembers R = [] \<and>
            on_transport_close e' a s1 = s1"
proof -
  let ?s1 = "on_transport_close e a s"
  let ?off = "(''user_offline'',
               JObj [(''userId'', JStr (user_id (fst (getUserForSocket e a s)))),
                     (''timestamp'', JStr (iso_string e))])"
  have s1: "?s1 = disconnect e a (socket_onclose a s)"
    using assms by (simp add: on_transport_close_def)
  have conn: "connected ?s1 = connected s - {a}"
    by (simp add: s1 disconnect_broadcast)
  have rms: "rooms ?s1 c = (if c = a then {} else rooms s c)" for c
    by (simp add: s1 disconnect_broadcast)
  have recv: "received ?s1 c =
      (if c \<in> connected s \<and> c \<noteq> a then received s c @ [?off] else received s c)" for c
    by (simp add: s1 disconnect_broadcast)
  have again: "on_transport_close e' a ?s1 = ?s1"
    by (simp add: on_transport_close_def [of e' a] conn)
  have members: "received ?s1 b = received s b @ [?off] \<and> b \<in> adapter_room ?s1 r"
    if "b \<in> adapter_room s r" "b \<noteq> a" for r b
    using that by (simp add: adapter_room_def conn rms recv)
  have gone: "a \<notin> adapter_room ?s1 r" for r
    by (simp add: adapter_room_def conn)
  have others: "rooms ?s1 c = rooms s c" if "c \<noteq> a" for c
    using that by (simp add: rms)
  have none: "getRoomMembers R = []" by (simp add: getRoomMembers_def)
  have empty: "rooms ?s1 a = {}" by (simp add: rms)
  from members recv gone conn others again none empty show ?thesis
    unfolding Let_def by blast
qed

theorem disconnect_cleanup_witness:
  "(let e = \<lparr> date_now = 42, new_date = 42, iso_string = ''t42'', random36 = ''k3'' \<rparr>;
        s = join_room e ''B'' (JObj [(''roomId'', JStr ''r2'')])
              (join_room e ''B'' (JObj [(''roomId'', JStr ''r1'')])
              (join_room e ''A'' (JObj [(''roomId'', JStr ''r2'')])
              (join_room e ''A'' (JObj [(''roomId'', JStr ''r1'')])
                 (connection ''C'' (connection ''B'' (connection ''A'' init_server))))));
        s1 = on_transport_close e ''A'' s
    in ''A'' \<in> connected s \<and>
       ''A'' \<in> adapter_room s ''room:r1'' \<and> ''A'' \<in> adapter_room s ''room:r2'' \<and>
       ''B'' \<in> adapter_room s ''room:r1'' \<and> ''B'' \<in> adapter_room s ''room:r2'' \<and>
       ''A'' \<notin> adapter_room s1 ''room:r1'' \<and> ''A'' \<notin> adapter_room s1 ''room:r2'' \<and>
       ''B'' \<in> adapter_room s1 ''room:r1'' \<and> ''B'' \<in> adapter_room s1 ''room:r2'' \<and>
       received s1 ''B'' =
         received s ''B'' @
           [(''user_offline'', JObj [(''userId'', JStr ''A''), (''timestamp'', JStr ''t42'')])] \<and>
       received s1 ''C'' =
         [(''user_offline'', JObj [(''userId'', JStr ''A''), (''timestamp'', JStr ''t42'')])] \<and>
       received s1 ''A'' = received s ''A'' \<and>
       on_transport_close e ''A'' s1 = s1)"
proof -
  define e where "e = \<lparr> date_now = 42, new_date = 42, iso_string = ''t42'', random36 = ''k3'' \<rparr>"
  define s where "s = join_room e ''B'' (JObj [(''roomId'', JStr ''r2'')])
              (join_room e ''B'' (JObj [(''roomId'', JStr ''r1'')])
              (join_room e ''A'' (JObj [(''roomId'', JStr ''r2'')])
              (join_room e ''A'' (JObj [(''roomId'', JStr ''r1'')])
                 (connection ''C'' (connection ''B'' (connection ''A'' init_server))))))"
  define s1 where "s1 = on_transport_close e ''A'' s"
  have h: "''A'' \<in> connected s" unfolding s_def by simp
  have conn: "connected s = {''C'', ''B'', ''A''}" unfolding s_def by simp
  have ra: "rooms s ''A'' = {''room:r2'', ''room:r1'', ''A''}"
    unfolding s_def by (simp add: join_room_JStr)
  have rb: "rooms s ''B'' = {''room:r2'', ''room:r1'', ''B''}"
    unfolding s_def by (simp add: join_room_JStr)
  have rc: "received s ''C'' = []"
    unfolding s_def by (simp add: join_room_JStr)
  have ua: "user_id (fst (getUserForSocket e ''A'' s)) = ''A''"
    unfolding s_def by (simp add: join_room_JStr fst_getUserForSocket createDemoUser_def)
  have ts: "iso_string e = ''t42''" by (simp add: e_def)
  note T = disconnect_cleanup [OF h, where e = e and e' = e and R = JNull,
      unfolded Let_def, folded s1_def]
  have recv: "received s1 c =
      (if c \<in> connected s \<and> c \<noteq> ''A''
       then received s c @
              [(''user_offline'', JObj [(''userId'', JStr ''A''), (''timestamp'', JStr ''t42'')])]
       else received s c)" for c
    using T ua ts by simp
  have rooms1: "rooms s1 ''A'' = {}" "rooms s1 ''B'' = rooms s ''B''"
    using T by simp_all
  have conn1: "connected s1 = connected s - {''A''}" using T by blast
  have again: "on_transport_close e ''A'' s1 = s1" using T by blast
  have P: "''A'' \<in> connected s \<and>
       ''A'' \<in> adapter_room s ''room:r1'' \<and> ''A'' \<in> adapter_room s ''room:r2'' \<and>
       ''B'' \<in> adapter_room s ''room:r1'' \<and> ''B'' \<in> adapter_room s ''room:r2'' \<and>
       ''A'' \<notin> adapter_room s1 ''room:r1'' \<and> ''A'' \<notin> adapter_room s1 ''room:r2'' \<and>
       ''B'' \<in> adapter_room s1 ''room:r1'' \<and> ''B'' \<in> adapter_room s1 ''room:r2'' \<and>
       received s1 ''B'' =
         received s ''B'' @
           [(''user_offline'', JObj [(''userId'', JStr ''A''), (''timestamp'', JStr ''t42'')])] \<and>
       received s1 ''C'' =
         [(''user_offline'', JObj [(''userId'', JStr ''A''), (''timestamp'', JStr ''t42'')])] \<and>
       received s1 ''A'' = received s ''A'' \<and>
       on_transport_close e ''A'' s1 = s1"
    by (simp add: adapter_room_def conn conn1 ra rb rooms1 recv rc again)
  show ?thesis
    unfolding Let_def using P unfolding s1_def s_def e_def .
qed

end
